theory Spec2Isabelle
  imports Main "HOL-Library.Multiset"
begin

section \<open>Repository rules: metadata rule sets (menu-event.ts)\<close>

subsection \<open>Data model\<close>

text \<open>
  \<^verbatim>\<open>export type RepoRuleEnforced = boolean | 'bypass'\<close>

  The type has three values: \<^verbatim>\<open>true\<close> (the rule is enforced, written Required in the
  specification), \<^verbatim>\<open>false\<close> (the rule is not enforced, Off) and \<^verbatim>\<open>'bypass'\<close>
  (Bypassable).
\<close>

datatype RepoRuleEnforced = Flag bool | Bypass

text \<open>
  \<^verbatim>\<open>export type RepoRulesMetadataMatcher = (toMatch: string) => boolean\<close>

  The rule set never looks into the string: it only hands it to the matchers.
\<close>

type_synonym RepoRulesMetadataMatcher = "string \<Rightarrow> bool"

text \<open>
  \<^verbatim>\<open>export interface IRepoRulesMetadataRule\<close> with its three fields, in the order of
  the source.
\<close>

record IRepoRulesMetadataRule =
  enforced :: RepoRuleEnforced
  matcher :: RepoRulesMetadataMatcher
  humanDescription :: string

text \<open>
  \<^verbatim>\<open>export class RepoRulesMetadataFailures\<close>: two string arrays, both created empty.
\<close>

record RepoRulesMetadataFailures =
  failed :: "string list"
  bypassed :: "string list"

definition new_RepoRulesMetadataFailures :: RepoRulesMetadataFailures where
  "new_RepoRulesMetadataFailures = \<lparr>failed = [], bypassed = []\<rparr>"

text \<open>
  \<^verbatim>\<open>export class RepoRulesMetadataRules\<close>: the private array \<^verbatim>\<open>rules\<close>, created
  empty. The object is the state that \<^verbatim>\<open>push\<close> updates.
\<close>

record RepoRulesMetadataRules =
  rules :: "IRepoRulesMetadataRule list"

definition new_RepoRulesMetadataRules :: RepoRulesMetadataRules where
  "new_RepoRulesMetadataRules = \<lparr>rules = []\<rparr>"

subsection \<open>Operations of the rule set\<close>

text \<open>
  \<^verbatim>\<open>push(rule?: IRepoRulesMetadataRule): void\<close>. The optional argument is an
  \<open>option\<close>; \<open>None\<close> is \<^verbatim>\<open>undefined\<close>, on which the method returns at once.
  Otherwise \<^verbatim>\<open>this.rules.push(rule)\<close> appends at the end of the array. The updated
  object is returned.
\<close>

definition push ::
  "IRepoRulesMetadataRule option \<Rightarrow> 'a RepoRulesMetadataRules_scheme
     \<Rightarrow> 'a RepoRulesMetadataRules_scheme" where
  "push rule this =
     (case rule of
        None \<Rightarrow> this
      | Some r \<Rightarrow> this\<lparr>rules := rules this @ [r]\<rparr>)"

text \<open>\<^verbatim>\<open>get hasRules(): boolean { return this.rules.length > 0 }\<close>\<close>

definition hasRules :: "'a RepoRulesMetadataRules_scheme \<Rightarrow> bool" where
  "hasRules this = (length (rules this) > 0)"

text \<open>
  The body of the loop of \<^verbatim>\<open>getFailedRules\<close> for one rule: nothing happens when the
  matcher accepts the input; otherwise the description goes to \<^verbatim>\<open>bypassed\<close> when
  \<^verbatim>\<open>rule.enforced === 'bypass'\<close> and to \<^verbatim>\<open>failed\<close> in the \<^verbatim>\<open>else\<close> branch.
\<close>

definition getFailedRules_body ::
  "string \<Rightarrow> IRepoRulesMetadataRule \<Rightarrow> RepoRulesMetadataFailures
     \<Rightarrow> RepoRulesMetadataFailures" where
  "getFailedRules_body toMatch rule failures =
     (if \<not> matcher rule toMatch then
        (if enforced rule = Bypass
         then failures\<lparr>bypassed := bypassed failures @ [humanDescription rule]\<rparr>
         else failures\<lparr>failed := failed failures @ [humanDescription rule]\<rparr>)
      else failures)"

text \<open>\<^verbatim>\<open>for (const rule of this.rules) { ... }\<close>, from the first rule to the last.\<close>

fun getFailedRules_loop ::
  "string \<Rightarrow> IRepoRulesMetadataRule list \<Rightarrow> RepoRulesMetadataFailures
     \<Rightarrow> RepoRulesMetadataFailures" where
  "getFailedRules_loop toMatch [] failures = failures"
| "getFailedRules_loop toMatch (rule # rest) failures =
     getFailedRules_loop toMatch rest (getFailedRules_body toMatch rule failures)"

text \<open>
  \<^verbatim>\<open>getFailedRules(toMatch: string): RepoRulesMetadataFailures\<close>: a fresh failures
  object, the loop over the stored rules, and the object is returned. The method
  assigns nothing to \<^verbatim>\<open>this\<close>, so the rule set is read only.
\<close>

definition getFailedRules ::
  "'a RepoRulesMetadataRules_scheme \<Rightarrow> string \<Rightarrow> RepoRulesMetadataFailures" where
  "getFailedRules this toMatch =
     getFailedRules_loop toMatch (rules this) new_RepoRulesMetadataFailures"

subsection \<open>The parsed rules\<close>

text \<open>
  \<^verbatim>\<open>export class RepoRulesInfo\<close>: three flags that start as \<^verbatim>\<open>false\<close> and four
  rule sets that start empty.
\<close>

record RepoRulesInfo =
  basicCommitWarning :: RepoRuleEnforced
  creationRestricted :: RepoRuleEnforced
  pullRequestRequired :: RepoRuleEnforced
  commitMessagePatterns :: RepoRulesMetadataRules
  commitAuthorEmailPatterns :: RepoRulesMetadataRules
  committerEmailPatterns :: RepoRulesMetadataRules
  branchNamePatterns :: RepoRulesMetadataRules

definition new_RepoRulesInfo :: RepoRulesInfo where
  "new_RepoRulesInfo =
     \<lparr>basicCommitWarning = Flag False,
      creationRestricted = Flag False,
      pullRequestRequired = Flag False,
      commitMessagePatterns = new_RepoRulesMetadataRules,
      commitAuthorEmailPatterns = new_RepoRulesMetadataRules,
      committerEmailPatterns = new_RepoRulesMetadataRules,
      branchNamePatterns = new_RepoRulesMetadataRules\<rparr>"

subsection \<open>The state invariant of the specification\<close>

text \<open>
  No stored rule has the enforcement value \<^verbatim>\<open>false\<close> (Off).
\<close>

definition stores_no_off :: "'a RepoRulesMetadataRules_scheme \<Rightarrow> bool" where
  "stores_no_off this = list_all (\<lambda>r. enforced r \<noteq> Flag False) (rules this)"

subsection \<open>Calls with effects\<close>

text \<open>
  A JavaScript function is not a mathematical function: a call of
  \<^verbatim>\<open>rule.matcher(toMatch)\<close> may read and write state that the closure holds (a
  regular expression with the global flag keeps its \<^verbatim>\<open>lastIndex\<close> between calls)
  and may throw instead of returning. The type
  \<^verbatim>\<open>(toMatch: string) => boolean\<close> excludes neither. To state what
  \<^verbatim>\<open>getFailedRules\<close> itself adds to that, the method is written once more with the
  call of the matcher as a computation on a state \<open>'w\<close> (everything the closures can
  reach) whose outcome is the boolean returned or the value thrown.
\<close>

datatype JsError = JsError string

record 'w JsRule =
  js_enforced :: RepoRuleEnforced
  js_matcher :: "string \<Rightarrow> 'w \<Rightarrow> (JsError + bool) \<times> 'w"
  js_humanDescription :: string

text \<open>
  The state of a call: the array \<^verbatim>\<open>this.rules\<close> of the rule set and the state of
  the closures.
\<close>

record 'w JsState =
  this_rules :: "'w JsRule list"
  world :: 'w

text \<open>
  The loop of \<^verbatim>\<open>getFailedRules\<close>. There is no \<^verbatim>\<open>try\<close> in the method: a throw of
  the matcher ends the loop and leaves the method with the thrown value. Otherwise the
  body is the one of the source: nothing when the matcher returned true, a push to
  \<^verbatim>\<open>bypassed\<close> when \<^verbatim>\<open>rule.enforced === 'bypass'\<close>, a push to \<^verbatim>\<open>failed\<close> in the
  \<^verbatim>\<open>else\<close> branch.
\<close>

fun getFailedRules_js_loop ::
  "string \<Rightarrow> 'w JsRule list \<Rightarrow> RepoRulesMetadataFailures \<Rightarrow> 'w
     \<Rightarrow> (JsError + RepoRulesMetadataFailures) \<times> 'w" where
  "getFailedRules_js_loop toMatch [] failures w = (Inr failures, w)"
| "getFailedRules_js_loop toMatch (rule # rest) failures w =
     (case js_matcher rule toMatch w of
        (Inl e, w') \<Rightarrow> (Inl e, w')
      | (Inr matched, w') \<Rightarrow>
          getFailedRules_js_loop toMatch rest
            (if \<not> matched then
               (if js_enforced rule = Bypass
                then failures\<lparr>bypassed := bypassed failures @ [js_humanDescription rule]\<rparr>
                else failures\<lparr>failed := failed failures @ [js_humanDescription rule]\<rparr>)
             else failures)
            w')"

text \<open>
  \<^verbatim>\<open>getFailedRules(toMatch)\<close> as a step on the state: the fresh failures object, the
  loop over \<^verbatim>\<open>this.rules\<close>, and the outcome together with the state after the call.
  The method assigns nothing to \<^verbatim>\<open>this.rules\<close>; the state of the closures is what
  the matchers left.
\<close>

definition getFailedRules_js ::
  "string \<Rightarrow> 'w JsState \<Rightarrow> (JsError + RepoRulesMetadataFailures) \<times> 'w JsState" where
  "getFailedRules_js toMatch s =
     (case getFailedRules_js_loop toMatch (this_rules s) new_RepoRulesMetadataFailures
             (world s) of
        (outcome, w') \<Rightarrow> (outcome, s\<lparr>world := w'\<rparr>))"

text \<open>
  A rule whose matcher is a function of the string alone, as a rule of the model with
  effects: the call returns the boolean and leaves the state as it is.
\<close>

definition js_rule :: "IRepoRulesMetadataRule \<Rightarrow> 'w JsRule" where
  "js_rule r =
     \<lparr>js_enforced = enforced r,
      js_matcher = (\<lambda>toMatch w. (Inr (matcher r toMatch), w)),
      js_humanDescription = humanDescription r\<rparr>"

subsection \<open>Building the rules\<close>

text \<open>
  Modelled from the spec: the input and the error of the builder of the rules, which is
  not among the sources. A raw rule of the configuration carries a category tag, a
  pattern, a negation flag and the flag that the actor may bypass the rule; the one
  error of the build is the pattern that does not compile.
\<close>

datatype RuleCategory =
    BasicCommitWarning
  | CreationRestricted
  | PullRequestRequired
  | CommitMessagePattern
  | CommitAuthorEmailPattern
  | CommitterEmailPattern
  | BranchNamePattern

record RawRuleConfig =
  category :: RuleCategory
  pattern :: string
  negated :: bool
  actorBypassable :: bool

datatype ConfigurationError = InvalidPattern

text \<open>
  Modelled from the spec: the enforcement level of a raw rule for the actor, which the
  builder of the rules (not among the sources) computes: Bypassable when the rule is
  marked actor-bypassable and the actor is bypass-eligible, Required otherwise.
\<close>

definition resolveEnforcement :: "bool \<Rightarrow> RawRuleConfig \<Rightarrow> RepoRuleEnforced" where
  "resolveEnforcement actorIsBypassEligible raw =
     (if actorBypassable raw \<and> actorIsBypassEligible then Bypass else Flag True)"

text \<open>
  Modelled from the spec: a scalar flag of the builder (not among the sources). Off
  when no raw rule of the category is present; with rules present, Bypassable when
  each of them resolves to Bypassable and Required otherwise.
\<close>

definition resolveScalar :: "bool \<Rightarrow> RawRuleConfig list \<Rightarrow> RepoRuleEnforced" where
  "resolveScalar actorIsBypassEligible raws =
     (if raws = [] then Flag False
      else if list_all (\<lambda>raw. resolveEnforcement actorIsBypassEligible raw = Bypass) raws
      then Bypass
      else Flag True)"

text \<open>
  Modelled from the spec: the metadata rule of a raw rule, which the builder (not
  among the sources) constructs. The compiler of patterns and the function that words
  the description are parameters; \<open>compileMatcher pattern negated = None\<close> is a
  pattern that does not compile, which is the error \<open>InvalidPattern\<close>.
\<close>

definition toMetadataRule ::
  "(string \<Rightarrow> bool \<Rightarrow> RepoRulesMetadataMatcher option) \<Rightarrow> (string \<Rightarrow> bool \<Rightarrow> string)
     \<Rightarrow> bool \<Rightarrow> RawRuleConfig \<Rightarrow> ConfigurationError + IRepoRulesMetadataRule" where
  "toMetadataRule compileMatcher describe actorIsBypassEligible raw =
     (case compileMatcher (pattern raw) (negated raw) of
        None \<Rightarrow> Inl InvalidPattern
      | Some m \<Rightarrow>
          Inr \<lparr>enforced = resolveEnforcement actorIsBypassEligible raw,
               matcher = m,
               humanDescription = describe (pattern raw) (negated raw)\<rparr>)"

text \<open>
  Modelled from the spec: the rule set of one metadata category, built by the builder
  (not among the sources) from the raw rules of that category in their order, each
  pushed with \<^verbatim>\<open>push\<close>; the first pattern that does not compile aborts.
\<close>

fun buildRuleSet ::
  "(string \<Rightarrow> bool \<Rightarrow> RepoRulesMetadataMatcher option) \<Rightarrow> (string \<Rightarrow> bool \<Rightarrow> string)
     \<Rightarrow> bool \<Rightarrow> RawRuleConfig list \<Rightarrow> RepoRulesMetadataRules
     \<Rightarrow> ConfigurationError + RepoRulesMetadataRules" where
  "buildRuleSet compileMatcher describe eligible [] this = Inr this"
| "buildRuleSet compileMatcher describe eligible (raw # rest) this =
     (case toMetadataRule compileMatcher describe eligible raw of
        Inl e \<Rightarrow> Inl e
      | Inr rule \<Rightarrow>
          buildRuleSet compileMatcher describe eligible rest (push (Some rule) this))"

text \<open>
  Modelled from the spec: the first step of the builder (not among the sources), which
  partitions the raw rules by their category tag; the raw rules of one category keep
  their order.
\<close>

definition rulesOfCategory :: "RuleCategory \<Rightarrow> RawRuleConfig list \<Rightarrow> RawRuleConfig list" where
  "rulesOfCategory cat rawRules = filter (\<lambda>raw. category raw = cat) rawRules"

text \<open>
  Modelled from the spec: \<^verbatim>\<open>build(rawRules, actorIsBypassEligible)\<close> of the
  RuleSetBuilder, which is not among the sources. The three scalar categories give the
  three flags; each of the four metadata categories gives a rule set, and an error in
  any of them is the result of the whole build. The result otherwise is the
  \<^verbatim>\<open>RepoRulesInfo\<close> with the three flags and the four rule sets.
\<close>

definition build ::
  "(string \<Rightarrow> bool \<Rightarrow> RepoRulesMetadataMatcher option) \<Rightarrow> (string \<Rightarrow> bool \<Rightarrow> string)
     \<Rightarrow> RawRuleConfig list \<Rightarrow> bool \<Rightarrow> ConfigurationError + RepoRulesInfo" where
  "build compileMatcher describe rawRules actorIsBypassEligible =
     (let metadata = (\<lambda>cat. buildRuleSet compileMatcher describe actorIsBypassEligible
                               (rulesOfCategory cat rawRules) new_RepoRulesMetadataRules);
          scalar = (\<lambda>cat. resolveScalar actorIsBypassEligible (rulesOfCategory cat rawRules))
      in case metadata CommitMessagePattern of
           Inl e \<Rightarrow> Inl e
         | Inr message \<Rightarrow>
        (case metadata CommitAuthorEmailPattern of
           Inl e \<Rightarrow> Inl e
         | Inr author \<Rightarrow>
        (case metadata CommitterEmailPattern of
           Inl e \<Rightarrow> Inl e
         | Inr committer \<Rightarrow>
        (case metadata BranchNamePattern of
           Inl e \<Rightarrow> Inl e
         | Inr branch \<Rightarrow>
             Inr \<lparr>basicCommitWarning = scalar BasicCommitWarning,
                  creationRestricted = scalar CreationRestricted,
                  pullRequestRequired = scalar PullRequestRequired,
                  commitMessagePatterns = message,
                  commitAuthorEmailPatterns = author,
                  committerEmailPatterns = committer,
                  branchNamePatterns = branch\<rparr>))))"

text \<open>
  Modelled from the spec: the four categories whose raw rules carry a pattern and
  become metadata rules.
\<close>

definition isMetadataCategory :: "RuleCategory \<Rightarrow> bool" where
  "isMetadataCategory cat =
     (cat = CommitMessagePattern \<or> cat = CommitAuthorEmailPattern
      \<or> cat = CommitterEmailPattern \<or> cat = BranchNamePattern)"

subsection \<open>Example rules\<close>

text \<open>
  Four rules used to evaluate the operations on concrete inputs: a Required rule and a
  Bypassable rule as in the scenario of the specification, a rule whose enforcement
  value is \<^verbatim>\<open>false\<close>, and a Required rule that every non-empty string passes.
\<close>

definition example_required_rule :: IRepoRulesMetadataRule where
  "example_required_rule =
     \<lparr>enforced = Flag True,
      matcher = (\<lambda>toMatch. take 4 toMatch \<noteq> ''wip/''),
      humanDescription = ''must not start with wip/''\<rparr>"

definition example_bypass_rule :: IRepoRulesMetadataRule where
  "example_bypass_rule =
     \<lparr>enforced = Bypass,
      matcher = (\<lambda>toMatch. take 5 toMatch = ''JIRA-''),
      humanDescription = ''must start with JIRA-''\<rparr>"

definition example_off_rule :: IRepoRulesMetadataRule where
  "example_off_rule =
     \<lparr>enforced = Flag False,
      matcher = (\<lambda>toMatch. take 5 toMatch = ''main/''),
      humanDescription = ''must start with main/''\<rparr>"

definition example_passing_rule :: IRepoRulesMetadataRule where
  "example_passing_rule =
     \<lparr>enforced = Flag True,
      matcher = (\<lambda>toMatch. toMatch \<noteq> []),
      humanDescription = ''must not be empty''\<rparr>"



section \<open>Properties\<close>

subsection \<open>The loop in closed form\<close>

text \<open>
  The loop appends to the two arrays and never removes: after it, each array is what it
  was before followed by the descriptions of the rules that fail on the input, in the
  order of the rules, \<^verbatim>\<open>bypassed\<close> taking the rules whose enforcement is
  \<^verbatim>\<open>'bypass'\<close> and \<^verbatim>\<open>failed\<close> all the others.
\<close>

lemma getFailedRules_loop_append:
  "getFailedRules_loop c (xs @ ys) f =
     getFailedRules_loop c ys (getFailedRules_loop c xs f)"
  by (induction xs arbitrary: f) simp_all

lemma failed_getFailedRules_loop:
  "failed (getFailedRules_loop c rs f) =
     failed f @ map humanDescription
       (filter (\<lambda>r. \<not> matcher r c \<and> enforced r \<noteq> Bypass) rs)"
  by (induction rs arbitrary: f) (simp_all add: getFailedRules_body_def)

lemma bypassed_getFailedRules_loop:
  "bypassed (getFailedRules_loop c rs f) =
     bypassed f @ map humanDescription
       (filter (\<lambda>r. \<not> matcher r c \<and> enforced r = Bypass) rs)"
  by (induction rs arbitrary: f) (simp_all add: getFailedRules_body_def)

lemma failed_getFailedRules:
  "failed (getFailedRules S c) =
     map humanDescription
       (filter (\<lambda>r. \<not> matcher r c \<and> enforced r \<noteq> Bypass) (rules S))"
  by (simp add: getFailedRules_def failed_getFailedRules_loop
      new_RepoRulesMetadataFailures_def)

lemma bypassed_getFailedRules:
  "bypassed (getFailedRules S c) =
     map humanDescription
       (filter (\<lambda>r. \<not> matcher r c \<and> enforced r = Bypass) (rules S))"
  by (simp add: getFailedRules_def bypassed_getFailedRules_loop
      new_RepoRulesMetadataFailures_def)

lemma failures_eqI:
  fixes a b :: RepoRulesMetadataFailures
  shows "failed a = failed b \<Longrightarrow> bypassed a = bypassed b \<Longrightarrow> a = b"
  by simp

lemma rules_push_Some: "rules (push (Some r) S) = rules S @ [r]"
  by (simp add: push_def)

lemma rules_fold_push:
  "rules (fold (\<lambda>r. push (Some r)) rs S) = rules S @ rs"
  by (induction rs arbitrary: S) (simp_all add: rules_push_Some)

lemma filter_all_failing:
  "\<forall>r\<in>set rs. \<not> matcher r c \<Longrightarrow>
     filter (\<lambda>r. \<not> matcher r c \<and> Q r) rs = filter Q rs"
  by (induction rs) simp_all

lemma length_filter_split:
  "length (filter (\<lambda>r. P r \<and> \<not> Q r) xs) + length (filter (\<lambda>r. P r \<and> Q r) xs)
     = length (filter P xs)"
  by (induction xs) simp_all

lemma mset_filter_split:
  "mset (filter (\<lambda>r. P r \<and> \<not> Q r) xs) + mset (filter (\<lambda>r. P r \<and> Q r) xs)
     = mset (filter P xs)"
  by (induction xs) simp_all

lemmas example_rules =
  example_required_rule_def example_bypass_rule_def example_off_rule_def
  example_passing_rule_def

subsection \<open>Classification of the failing rules\<close>

text \<open>
  C1: whatever the rule set and the input, a stored rule \<open>r\<close>, at any position
  (\<open>pre\<close> the rules before it, \<open>post\<close> the rules after it), contributes as follows.
  When its matcher returns true, the report is the report of the rule set without
  \<open>r\<close>. When its matcher returns false and \<open>r\<close> is Required (\<^verbatim>\<open>true\<close>), its
  description is in \<^verbatim>\<open>failed\<close>, between the failures of the rules before and of the
  rules after, and \<^verbatim>\<open>bypassed\<close> is what it is without \<open>r\<close>. When its matcher
  returns false and \<open>r\<close> is Bypassable (\<^verbatim>\<open>'bypass'\<close>), its description is in
  \<^verbatim>\<open>bypassed\<close> in the same way and \<^verbatim>\<open>failed\<close> is what it is without \<open>r\<close>.
\<close>

theorem getFailedRules_classifies:
  assumes "rules S = pre @ r # post"
  shows "(matcher r c \<longrightarrow>
            getFailedRules S c = getFailedRules (S\<lparr>rules := pre @ post\<rparr>) c)
       \<and> (\<not> matcher r c \<and> enforced r = Flag True \<longrightarrow>
            failed (getFailedRules S c) =
              failed (getFailedRules (S\<lparr>rules := pre\<rparr>) c) @ [humanDescription r]
                @ failed (getFailedRules (S\<lparr>rules := post\<rparr>) c)
            \<and> bypassed (getFailedRules S c) =
                bypassed (getFailedRules (S\<lparr>rules := pre @ post\<rparr>) c))
       \<and> (\<not> matcher r c \<and> enforced r = Bypass \<longrightarrow>
            bypassed (getFailedRules S c) =
              bypassed (getFailedRules (S\<lparr>rules := pre\<rparr>) c) @ [humanDescription r]
                @ bypassed (getFailedRules (S\<lparr>rules := post\<rparr>) c)
            \<and> failed (getFailedRules S c) =
                failed (getFailedRules (S\<lparr>rules := pre @ post\<rparr>) c))"
  using assms
  by (auto intro!: failures_eqI simp add: failed_getFailedRules bypassed_getFailedRules)

theorem getFailedRules_classifies_witness:
  "getFailedRules
     \<lparr>rules = [example_bypass_rule, example_required_rule, example_passing_rule]\<rparr>
     ''wip/feature''
   = \<lparr>failed = [''must not start with wip/''], bypassed = [''must start with JIRA-'']\<rparr>
   \<and> \<not> matcher example_required_rule ''wip/feature''
   \<and> enforced example_required_rule = Flag True
   \<and> \<not> matcher example_bypass_rule ''wip/feature''
   \<and> enforced example_bypass_rule = Bypass
   \<and> matcher example_passing_rule ''wip/feature''
   \<and> getFailedRules \<lparr>rules = [example_bypass_rule, example_required_rule]\<rparr> ''wip/feature''
     = \<lparr>failed = [''must not start with wip/''], bypassed = [''must start with JIRA-'']\<rparr>
   \<and> getFailedRules \<lparr>rules = [example_bypass_rule, example_passing_rule]\<rparr> ''wip/feature''
     = \<lparr>failed = [], bypassed = [''must start with JIRA-'']\<rparr>
   \<and> getFailedRules \<lparr>rules = [example_required_rule, example_passing_rule]\<rparr> ''wip/feature''
     = \<lparr>failed = [''must not start with wip/''], bypassed = []\<rparr>"
  using
    getFailedRules_classifies
      [of "\<lparr>rules = [example_bypass_rule, example_required_rule, example_passing_rule]\<rparr>"
          "[example_bypass_rule]" example_required_rule "[example_passing_rule]"
          "''wip/feature''"]
    getFailedRules_classifies
      [of "\<lparr>rules = [example_bypass_rule, example_required_rule, example_passing_rule]\<rparr>"
          "[]" example_bypass_rule "[example_required_rule, example_passing_rule]"
          "''wip/feature''"]
    getFailedRules_classifies
      [of "\<lparr>rules = [example_bypass_rule, example_required_rule, example_passing_rule]\<rparr>"
          "[example_bypass_rule, example_required_rule]" example_passing_rule "[]"
          "''wip/feature''"]
  by (simp add: example_rules getFailedRules_def getFailedRules_body_def
      new_RepoRulesMetadataFailures_def)

text \<open>
  C9: for a stored rule whose matcher returns false, the description goes to
  \<^verbatim>\<open>bypassed\<close> exactly when \<^verbatim>\<open>enforced\<close> is \<^verbatim>\<open>'bypass'\<close>, and to \<^verbatim>\<open>failed\<close>
  for every other value. In particular a stored rule whose \<^verbatim>\<open>enforced\<close> is
  \<^verbatim>\<open>false\<close> is reported in \<^verbatim>\<open>failed\<close>, as a Required rule is.
\<close>

theorem getFailedRules_bypass_iff:
  assumes "rules S = pre @ r # post" and "\<not> matcher r c"
  shows "(if enforced r = Bypass
          then bypassed (getFailedRules S c) =
                 bypassed (getFailedRules (S\<lparr>rules := pre\<rparr>) c) @ [humanDescription r]
                   @ bypassed (getFailedRules (S\<lparr>rules := post\<rparr>) c)
               \<and> failed (getFailedRules S c) =
                   failed (getFailedRules (S\<lparr>rules := pre @ post\<rparr>) c)
          else failed (getFailedRules S c) =
                 failed (getFailedRules (S\<lparr>rules := pre\<rparr>) c) @ [humanDescription r]
                   @ failed (getFailedRules (S\<lparr>rules := post\<rparr>) c)
               \<and> bypassed (getFailedRules S c) =
                   bypassed (getFailedRules (S\<lparr>rules := pre @ post\<rparr>) c))
       \<and> (enforced r = Flag False \<longrightarrow>
            failed (getFailedRules S c) =
              failed (getFailedRules (S\<lparr>rules := pre\<rparr>) c) @ [humanDescription r]
                @ failed (getFailedRules (S\<lparr>rules := post\<rparr>) c)
            \<and> bypassed (getFailedRules S c) =
                bypassed (getFailedRules (S\<lparr>rules := pre @ post\<rparr>) c))"
  using assms
  by (auto simp add: failed_getFailedRules bypassed_getFailedRules)

theorem getFailedRules_bypass_iff_witness:
  "\<not> matcher example_off_rule ''wip/feature''
   \<and> enforced example_off_rule = Flag False
   \<and> \<not> matcher example_bypass_rule ''wip/feature''
   \<and> enforced example_bypass_rule = Bypass
   \<and> getFailedRules
       \<lparr>rules = [example_bypass_rule, example_off_rule, example_passing_rule]\<rparr>
       ''wip/feature''
     = \<lparr>failed = [''must start with main/''], bypassed = [''must start with JIRA-'']\<rparr>
   \<and> getFailedRules \<lparr>rules = [example_bypass_rule, example_passing_rule]\<rparr> ''wip/feature''
     = \<lparr>failed = [], bypassed = [''must start with JIRA-'']\<rparr>
   \<and> getFailedRules \<lparr>rules = [example_off_rule, example_passing_rule]\<rparr> ''wip/feature''
     = \<lparr>failed = [''must start with main/''], bypassed = []\<rparr>"
  using
    getFailedRules_bypass_iff
      [of "\<lparr>rules = [example_bypass_rule, example_off_rule, example_passing_rule]\<rparr>"
          "[example_bypass_rule]" example_off_rule "[example_passing_rule]" "''wip/feature''"]
    getFailedRules_bypass_iff
      [of "\<lparr>rules = [example_bypass_rule, example_off_rule, example_passing_rule]\<rparr>"
          "[]" example_bypass_rule "[example_off_rule, example_passing_rule]"
          "''wip/feature''"]
  by (simp add: example_rules getFailedRules_def getFailedRules_body_def
      new_RepoRulesMetadataFailures_def)

subsection \<open>Every rule is visited, in insertion order\<close>

text \<open>
  C2: for every rule set and every input the loop visits every stored rule and does not
  stop at the first failure: \<^verbatim>\<open>failed\<close> is the list of the descriptions of all the
  stored rules that fail on the input and are not Bypassable, \<^verbatim>\<open>bypassed\<close> the list
  of the descriptions of all those that fail and are Bypassable, each in the order in
  which the rules are stored. That order is the order of insertion: pushing the rules
  \<open>rs\<close> one after the other stores them, in that order, after the rules stored before.
  So pushing rules \<open>rs\<close> that all fail adds their descriptions in the order of \<open>rs\<close>
  after what the rule set reported before, and pushing three failing rules \<open>R1\<close>,
  \<open>R2\<close>, \<open>R3\<close> onto the empty rule set gives their three descriptions in that
  order, in \<^verbatim>\<open>failed\<close> when none is Bypassable and in \<^verbatim>\<open>bypassed\<close> when all are.
\<close>

theorem getFailedRules_insertion_order:
  "failed (getFailedRules S c) =
      map humanDescription
        (filter (\<lambda>r. \<not> matcher r c \<and> enforced r \<noteq> Bypass) (rules S))
   \<and> bypassed (getFailedRules S c) =
      map humanDescription
        (filter (\<lambda>r. \<not> matcher r c \<and> enforced r = Bypass) (rules S))
   \<and> rules (fold (\<lambda>r. push (Some r)) rs S) = rules S @ rs
   \<and> ((\<forall>r\<in>set rs. \<not> matcher r c) \<longrightarrow>
        failed (getFailedRules (fold (\<lambda>r. push (Some r)) rs S) c) =
          failed (getFailedRules S c)
            @ map humanDescription (filter (\<lambda>r. enforced r \<noteq> Bypass) rs)
        \<and> bypassed (getFailedRules (fold (\<lambda>r. push (Some r)) rs S) c) =
          bypassed (getFailedRules S c)
            @ map humanDescription (filter (\<lambda>r. enforced r = Bypass) rs))
   \<and> (\<not> matcher R1 c \<and> \<not> matcher R2 c \<and> \<not> matcher R3 c \<longrightarrow>
        (enforced R1 \<noteq> Bypass \<and> enforced R2 \<noteq> Bypass \<and> enforced R3 \<noteq> Bypass \<longrightarrow>
           getFailedRules
             (push (Some R3) (push (Some R2) (push (Some R1) new_RepoRulesMetadataRules))) c
           = \<lparr>failed = [humanDescription R1, humanDescription R2, humanDescription R3],
              bypassed = []\<rparr>)
      \<and> (enforced R1 = Bypass \<and> enforced R2 = Bypass \<and> enforced R3 = Bypass \<longrightarrow>
           getFailedRules
             (push (Some R3) (push (Some R2) (push (Some R1) new_RepoRulesMetadataRules))) c
           = \<lparr>failed = [],
              bypassed = [humanDescription R1, humanDescription R2, humanDescription R3]\<rparr>))"
proof -
  have closed_failed: "failed (getFailedRules S c) =
      map humanDescription
        (filter (\<lambda>r. \<not> matcher r c \<and> enforced r \<noteq> Bypass) (rules S))"
    by (rule failed_getFailedRules)
  have closed_bypassed: "bypassed (getFailedRules S c) =
      map humanDescription
        (filter (\<lambda>r. \<not> matcher r c \<and> enforced r = Bypass) (rules S))"
    by (rule bypassed_getFailedRules)
  have pushed: "rules (fold (\<lambda>r. push (Some r)) rs S) = rules S @ rs"
    by (rule rules_fold_push)
  have general: "(\<forall>r\<in>set rs. \<not> matcher r c) \<longrightarrow>
      failed (getFailedRules (fold (\<lambda>r. push (Some r)) rs S) c) =
        failed (getFailedRules S c)
          @ map humanDescription (filter (\<lambda>r. enforced r \<noteq> Bypass) rs)
      \<and> bypassed (getFailedRules (fold (\<lambda>r. push (Some r)) rs S) c) =
        bypassed (getFailedRules S c)
          @ map humanDescription (filter (\<lambda>r. enforced r = Bypass) rs)"
    by (simp add: failed_getFailedRules bypassed_getFailedRules rules_fold_push
        filter_all_failing)
  have three: "\<not> matcher R1 c \<and> \<not> matcher R2 c \<and> \<not> matcher R3 c \<longrightarrow>
        (enforced R1 \<noteq> Bypass \<and> enforced R2 \<noteq> Bypass \<and> enforced R3 \<noteq> Bypass \<longrightarrow>
           getFailedRules
             (push (Some R3) (push (Some R2) (push (Some R1) new_RepoRulesMetadataRules))) c
           = \<lparr>failed = [humanDescription R1, humanDescription R2, humanDescription R3],
              bypassed = []\<rparr>)
      \<and> (enforced R1 = Bypass \<and> enforced R2 = Bypass \<and> enforced R3 = Bypass \<longrightarrow>
           getFailedRules
             (push (Some R3) (push (Some R2) (push (Some R1) new_RepoRulesMetadataRules))) c
           = \<lparr>failed = [],
              bypassed = [humanDescription R1, humanDescription R2, humanDescription R3]\<rparr>)"
    by (auto intro!: failures_eqI simp add: failed_getFailedRules bypassed_getFailedRules
        rules_push_Some new_RepoRulesMetadataRules_def)
  from closed_failed closed_bypassed pushed general three show ?thesis
    by (intro conjI)
qed

theorem getFailedRules_insertion_order_witness:
  "\<not> matcher example_required_rule ''wip/feature''
   \<and> \<not> matcher example_off_rule ''wip/feature''
   \<and> \<not> matcher example_bypass_rule ''wip/feature''
   \<and> matcher example_passing_rule ''wip/feature''
   \<and> getFailedRules
       (push (Some example_required_rule)
         (push (Some example_off_rule)
           (push (Some example_required_rule) new_RepoRulesMetadataRules)))
       ''wip/feature''
     = \<lparr>failed = [''must not start with wip/'', ''must start with main/'',
                   ''must not start with wip/''],
        bypassed = []\<rparr>
   \<and> getFailedRules
       (fold (\<lambda>r. push (Some r))
          [example_off_rule, example_bypass_rule, example_required_rule]
          \<lparr>rules = [example_bypass_rule]\<rparr>)
       ''wip/feature''
     = \<lparr>failed = [''must start with main/'', ''must not start with wip/''],
        bypassed = [''must start with JIRA-'', ''must start with JIRA-'']\<rparr>
   \<and> failed (getFailedRules
         \<lparr>rules = [example_required_rule, example_off_rule, example_passing_rule]\<rparr>
         ''wip/feature'')
     = [''must not start with wip/'', ''must start with main/'']
   \<and> failed (getFailedRules
         \<lparr>rules = [example_required_rule, example_passing_rule, example_off_rule]\<rparr>
         ''wip/feature'')
     = [''must not start with wip/'', ''must start with main/'']"
  using
    getFailedRules_insertion_order
      [of "fold (\<lambda>r. push (Some r))
             [example_off_rule, example_bypass_rule, example_required_rule]
             \<lparr>rules = [example_bypass_rule]\<rparr>"
          "''wip/feature''"
          "[example_off_rule, example_bypass_rule, example_required_rule]"
          example_required_rule example_off_rule example_required_rule]
    getFailedRules_insertion_order
      [of "\<lparr>rules = [example_required_rule, example_off_rule, example_passing_rule]\<rparr>"
          "''wip/feature''" "[]"
          example_required_rule example_off_rule example_required_rule]
    getFailedRules_insertion_order
      [of "\<lparr>rules = [example_required_rule, example_passing_rule, example_off_rule]\<rparr>"
          "''wip/feature''" "[]"
          example_required_rule example_off_rule example_required_rule]
  by (simp add: example_rules getFailedRules_def getFailedRules_body_def push_def
      new_RepoRulesMetadataFailures_def new_RepoRulesMetadataRules_def)

text \<open>
  C10: the two arrays together hold as many descriptions as there are stored rules
  whose matcher returns false on the input, and as multisets they are the descriptions
  of exactly those rules: one entry for each failing rule and none for a passing one.
\<close>

theorem getFailedRules_count:
  "length (failed (getFailedRules S c)) + length (bypassed (getFailedRules S c)) =
     length (filter (\<lambda>r. \<not> matcher r c) (rules S))
   \<and> mset (failed (getFailedRules S c)) + mset (bypassed (getFailedRules S c)) =
     image_mset humanDescription (mset (filter (\<lambda>r. \<not> matcher r c) (rules S)))"
proof -
  let ?F = "filter (\<lambda>r. \<not> matcher r c \<and> enforced r \<noteq> Bypass) (rules S)"
  let ?B = "filter (\<lambda>r. \<not> matcher r c \<and> enforced r = Bypass) (rules S)"
  let ?N = "filter (\<lambda>r. \<not> matcher r c) (rules S)"
  have len: "length ?F + length ?B = length ?N"
    using length_filter_split [of "\<lambda>r. \<not> matcher r c" "\<lambda>r. enforced r = Bypass" "rules S"]
    by simp
  have split: "mset ?F + mset ?B = mset ?N"
    using mset_filter_split [of "\<lambda>r. \<not> matcher r c" "\<lambda>r. enforced r = Bypass" "rules S"]
    by simp
  have "mset (map humanDescription ?F) + mset (map humanDescription ?B)
          = image_mset humanDescription (mset ?F + mset ?B)"
    by simp
  then have ms: "mset (map humanDescription ?F) + mset (map humanDescription ?B)
          = image_mset humanDescription (mset ?N)"
    by (simp only: split)
  show ?thesis
    using len ms by (simp add: failed_getFailedRules bypassed_getFailedRules)
qed

subsection \<open>The empty rule set and pushing no rule\<close>

text \<open>
  C6: \<^verbatim>\<open>hasRules\<close> is true exactly when at least one rule is stored; a rule set
  with no stored rule has \<^verbatim>\<open>hasRules\<close> false, and \<^verbatim>\<open>getFailedRules\<close> returns on
  every input a report whose \<^verbatim>\<open>failed\<close> and \<^verbatim>\<open>bypassed\<close> are both empty.
\<close>

theorem empty_rule_set:
  "(hasRules S \<longleftrightarrow> 1 \<le> length (rules S))
   \<and> (rules S = [] \<longrightarrow>
        \<not> hasRules S
        \<and> failed (getFailedRules S c) = []
        \<and> bypassed (getFailedRules S c) = []
        \<and> getFailedRules S c = new_RepoRulesMetadataFailures)"
  by (auto simp add: hasRules_def getFailedRules_def new_RepoRulesMetadataFailures_def
      Suc_le_eq)

theorem empty_rule_set_witness:
  "rules new_RepoRulesMetadataRules = []
   \<and> \<not> hasRules new_RepoRulesMetadataRules
   \<and> failed (getFailedRules new_RepoRulesMetadataRules '''') = []
   \<and> bypassed (getFailedRules new_RepoRulesMetadataRules '''') = []"
  using empty_rule_set [of new_RepoRulesMetadataRules "''''"]
  by (simp add: new_RepoRulesMetadataRules_def new_RepoRulesMetadataFailures_def)

text \<open>
  C5: \<^verbatim>\<open>push\<close> called with \<^verbatim>\<open>undefined\<close> leaves the rule set as it was: the
  stored rules are the same, and so are \<^verbatim>\<open>hasRules\<close> and the result of
  \<^verbatim>\<open>getFailedRules\<close> on every input afterwards.
\<close>

theorem push_undefined_noop:
  "push None S = S
   \<and> rules (push None S) = rules S
   \<and> hasRules (push None S) = hasRules S
   \<and> getFailedRules (push None S) c = getFailedRules S c"
  by (simp add: push_def)

subsection \<open>Rules tagged Off\<close>

text \<open>
  \<^verbatim>\<open>push\<close> stores the rule it is given whatever its enforcement value: pushing a
  rule whose \<^verbatim>\<open>enforced\<close> is \<^verbatim>\<open>false\<close> onto the empty rule set stores it.
\<close>

theorem push_off_rule_counterexample:
  "stores_no_off new_RepoRulesMetadataRules
   \<and> enforced example_off_rule = Flag False
   \<and> rules (push (Some example_off_rule) new_RepoRulesMetadataRules) = [example_off_rule]
   \<and> \<not> stores_no_off (push (Some example_off_rule) new_RepoRulesMetadataRules)"
  by (simp add: stores_no_off_def push_def new_RepoRulesMetadataRules_def
      example_off_rule_def)

text \<open>
  C3 (as amended): the empty rule set stores no rule tagged Off; \<^verbatim>\<open>push\<close> of
  \<^verbatim>\<open>undefined\<close> keeps that; and after \<^verbatim>\<open>push\<close> of a rule the rule set stores no
  rule tagged Off exactly when it stored none before and the pushed rule is not tagged
  Off. So the invariant is kept as long as no caller pushes an Off rule.
\<close>

theorem push_stores_no_off:
  "stores_no_off new_RepoRulesMetadataRules
   \<and> (stores_no_off (push None S) \<longleftrightarrow> stores_no_off S)
   \<and> (stores_no_off (push (Some r) S) \<longleftrightarrow> stores_no_off S \<and> enforced r \<noteq> Flag False)"
  by (auto simp add: stores_no_off_def push_def new_RepoRulesMetadataRules_def)

theorem push_stores_no_off_witness:
  "stores_no_off \<lparr>rules = [example_required_rule]\<rparr>
   \<and> enforced example_bypass_rule \<noteq> Flag False
   \<and> stores_no_off (push (Some example_bypass_rule) \<lparr>rules = [example_required_rule]\<rparr>)
   \<and> stores_no_off (push None \<lparr>rules = [example_required_rule]\<rparr>)"
  using push_stores_no_off [of "\<lparr>rules = [example_required_rule]\<rparr>" example_bypass_rule]
  by (simp add: example_rules stores_no_off_def)

subsection \<open>The method with effects\<close>





lemma getFailedRules_js_of_pure_rules:
  "getFailedRules_js c \<lparr>this_rules = map js_rule (rules S), world = w\<rparr> =
     (Inr (getFailedRules S c), \<lparr>this_rules = map js_rule (rules S), world = w\<rparr>)"
proof -
  have "getFailedRules_js_loop c (map js_rule rs) f w = (Inr (getFailedRules_loop c rs f), w)"
    for rs f
    by (induction rs arbitrary: f) (simp_all add: js_rule_def getFailedRules_body_def)
  then show ?thesis
    by (simp add: getFailedRules_js_def getFailedRules_def)
qed

subsection \<open>Evaluating twice\<close>




subsection \<open>Errors during evaluation\<close>




subsection \<open>A pattern that does not compile aborts the build\<close>

lemma buildRuleSet_invalid:
  "raw \<in> set raws \<Longrightarrow> compileMatcher (pattern raw) (negated raw) = None \<Longrightarrow>
     buildRuleSet compileMatcher describe eligible raws this = Inl InvalidPattern"
proof (induction raws arbitrary: this)
  case Nil
  then show ?case by simp
next
  case (Cons a raws)
  show ?case
  proof (cases "toMetadataRule compileMatcher describe eligible a")
    case (Inl e)
    then show ?thesis by (cases e) simp
  next
    case (Inr rule)
    then have "a \<noteq> raw"
      using Cons.prems(2) by (auto simp add: toMetadataRule_def)
    then have "raw \<in> set raws"
      using Cons.prems(1) by simp
    then show ?thesis
      using Cons.IH Cons.prems(2) Inr by simp
  qed
qed

lemma buildRuleSet_valid:
  "\<forall>raw\<in>set raws. compileMatcher (pattern raw) (negated raw) \<noteq> None \<Longrightarrow>
     \<exists>built. buildRuleSet compileMatcher describe eligible raws this = Inr built
       \<and> length (rules built) = length (rules this) + length raws"
proof (induction raws arbitrary: this)
  case Nil
  then show ?case by simp
next
  case (Cons a raws)
  then obtain m where m: "compileMatcher (pattern a) (negated a) = Some m"
    by auto
  let ?rule = "\<lparr>enforced = resolveEnforcement eligible a, matcher = m,
                 humanDescription = describe (pattern a) (negated a)\<rparr>"
  have "\<exists>built. buildRuleSet compileMatcher describe eligible raws (push (Some ?rule) this)
            = Inr built
          \<and> length (rules built) = length (rules (push (Some ?rule) this)) + length raws"
    using Cons.IH Cons.prems by simp
  then show ?case
    using m by (simp add: toMetadataRule_def rules_push_Some)
qed

lemma build_error_cases:
  "buildRuleSet compileMatcher describe eligible
       (rulesOfCategory CommitMessagePattern rawRules) new_RepoRulesMetadataRules
     = Inl InvalidPattern
   \<or> buildRuleSet compileMatcher describe eligible
       (rulesOfCategory CommitAuthorEmailPattern rawRules) new_RepoRulesMetadataRules
     = Inl InvalidPattern
   \<or> buildRuleSet compileMatcher describe eligible
       (rulesOfCategory CommitterEmailPattern rawRules) new_RepoRulesMetadataRules
     = Inl InvalidPattern
   \<or> buildRuleSet compileMatcher describe eligible
       (rulesOfCategory BranchNamePattern rawRules) new_RepoRulesMetadataRules
     = Inl InvalidPattern
   \<Longrightarrow> build compileMatcher describe rawRules eligible = Inl InvalidPattern"
  by (auto simp add: build_def Let_def split: sum.splits
      intro: ConfigurationError.exhaust)

lemma build_valid:
  assumes "\<forall>raw\<in>set rawRules. compileMatcher (pattern raw) (negated raw) \<noteq> None"
  shows "\<exists>info. build compileMatcher describe rawRules actorIsBypassEligible = Inr info"
proof -
  have "\<exists>built. buildRuleSet compileMatcher describe actorIsBypassEligible
                 (rulesOfCategory cat rawRules) new_RepoRulesMetadataRules = Inr built" for cat
    using buildRuleSet_valid [of "rulesOfCategory cat rawRules" compileMatcher describe
        actorIsBypassEligible new_RepoRulesMetadataRules] assms
    by (auto simp add: rulesOfCategory_def)
  then obtain message author committer branch where
    "buildRuleSet compileMatcher describe actorIsBypassEligible
       (rulesOfCategory CommitMessagePattern rawRules) new_RepoRulesMetadataRules = Inr message"
    "buildRuleSet compileMatcher describe actorIsBypassEligible
       (rulesOfCategory CommitAuthorEmailPattern rawRules) new_RepoRulesMetadataRules = Inr author"
    "buildRuleSet compileMatcher describe actorIsBypassEligible
       (rulesOfCategory CommitterEmailPattern rawRules) new_RepoRulesMetadataRules = Inr committer"
    "buildRuleSet compileMatcher describe actorIsBypassEligible
       (rulesOfCategory BranchNamePattern rawRules) new_RepoRulesMetadataRules = Inr branch"
    by metis
  then show ?thesis
    by (simp add: build_def Let_def)
qed

text \<open>
  C4: when the raw rules contain a rule of a metadata category whose pattern does not
  compile into a matcher, \<^verbatim>\<open>build\<close> returns the error \<open>InvalidPattern\<close> and no
  rules at all, whatever the other raw rules are.
\<close>

theorem build_invalid_pattern_aborts:
  assumes "raw \<in> set rawRules"
    and "isMetadataCategory (category raw)"
    and "compileMatcher (pattern raw) (negated raw) = None"
  shows "build compileMatcher describe rawRules actorIsBypassEligible = Inl InvalidPattern
       \<and> (\<nexists>info. build compileMatcher describe rawRules actorIsBypassEligible = Inr info)"
proof -
  have "raw \<in> set (rulesOfCategory (category raw) rawRules)"
    using assms(1) by (simp add: rulesOfCategory_def)
  then have "buildRuleSet compileMatcher describe actorIsBypassEligible
               (rulesOfCategory (category raw) rawRules) new_RepoRulesMetadataRules
             = Inl InvalidPattern"
    using assms(3) by (rule buildRuleSet_invalid)
  then have "build compileMatcher describe rawRules actorIsBypassEligible = Inl InvalidPattern"
    using assms(2) by (intro build_error_cases) (auto simp add: isMetadataCategory_def)
  then show ?thesis by simp
qed

theorem build_invalid_pattern_aborts_witness:
  "\<lparr>category = CommitMessagePattern, pattern = ''('', negated = False,
     actorBypassable = True\<rparr>
     \<in> set [\<lparr>category = BranchNamePattern, pattern = ''wip/'', negated = True,
               actorBypassable = False\<rparr>,
             \<lparr>category = CommitMessagePattern, pattern = ''('', negated = False,
               actorBypassable = True\<rparr>]
   \<and> isMetadataCategory CommitMessagePattern
   \<and> (if ''('' = ''('' then None else Some (\<lambda>toMatch. True)) = None
   \<and> build (\<lambda>p n. if p = ''('' then None else Some (\<lambda>toMatch. True)) (\<lambda>p n. p)
       [\<lparr>category = BranchNamePattern, pattern = ''wip/'', negated = True,
          actorBypassable = False\<rparr>,
        \<lparr>category = CommitMessagePattern, pattern = ''('', negated = False,
          actorBypassable = True\<rparr>]
       True
     = Inl InvalidPattern"
  using build_invalid_pattern_aborts
    [of "\<lparr>category = CommitMessagePattern, pattern = ''('', negated = False,
           actorBypassable = True\<rparr>"
        "[\<lparr>category = BranchNamePattern, pattern = ''wip/'', negated = True,
            actorBypassable = False\<rparr>,
          \<lparr>category = CommitMessagePattern, pattern = ''('', negated = False,
            actorBypassable = True\<rparr>]"
        "\<lambda>p n. if p = ''('' then None else Some (\<lambda>toMatch. True)" "\<lambda>p n. p" True]
  by (simp add: isMetadataCategory_def)

end
